theory Spec2Isabelle
  imports Main "HOL-Library.Word"
begin

section \<open>Python values used by the nutrition planner\<close>

text \<open>
  A Python \<open>str\<close> is a sequence of Unicode code points and \<open>len\<close> counts code points, so a
  string is a list of natural numbers here. Source literals are ASCII and are embedded with
  \<open>lit\<close>.
\<close>

type_synonym pystr = "nat list"

definition lit :: "string \<Rightarrow> pystr" where
  "lit s = map of_char s"

text \<open>The exceptions that the modelled fragment of Python can raise.\<close>

datatype py_error =
    ValueError
  | IndexError
  | TypeError
  | KeyError
  | JSONDecodeError
  | RequestException
  | UnsupportedField

text \<open>
  The values \<open>response.json()\<close> can produce. A float is its IEEE-754 binary64 bit pattern;
  a dict is an association list in insertion order.
\<close>

datatype pyval =
    PyNone
  | PyBool bool
  | PyInt int
  | PyFloat "64 word"
  | PyStr pystr
  | PyList "pyval list"
  | PyDict "(pystr \<times> pyval) list"

subsection \<open>\<open>str.strip()\<close>\<close>

text \<open>
  \<open>str.strip()\<close> without argument removes the code points for which \<open>str.isspace\<close> holds
  from both ends: U+0009..U+000D, U+001C..U+0020, U+0085, U+00A0, U+1680, U+2000..U+200A,
  U+2028, U+2029, U+202F, U+205F and U+3000.
\<close>

definition py_isspace :: "nat \<Rightarrow> bool" where
  "py_isspace c \<longleftrightarrow>
     (9 \<le> c \<and> c \<le> 13) \<or> (28 \<le> c \<and> c \<le> 32) \<or> c = 133 \<or> c = 160 \<or> c = 5760 \<or>
     (8192 \<le> c \<and> c \<le> 8202) \<or> c = 8232 \<or> c = 8233 \<or> c = 8239 \<or> c = 8287 \<or> c = 12288"

definition py_strip :: "pystr \<Rightarrow> pystr" where
  "py_strip s = rev (dropWhile py_isspace (rev (dropWhile py_isspace s)))"

subsection \<open>\<open>str(int)\<close>\<close>

fun nat_digits :: "nat \<Rightarrow> pystr" where
  "nat_digits n = (if n < 10 then [48 + n] else nat_digits (n div 10) @ [48 + n mod 10])"

declare nat_digits.simps [simp del]

definition py_str_int :: "int \<Rightarrow> pystr" where
  "py_str_int i = (if i < 0 then 45 # nat_digits (nat (- i)) else nat_digits (nat i))"

subsection \<open>\<open>str.format\<close> with automatically numbered fields\<close>

text \<open>
  \<open>template.format(*args)\<close> restricted to what the planner's template uses: literal text, the
  escapes \<open>{{\<close> and \<open>}}\<close>, and the empty replacement field \<open>{}\<close>, which takes the next positional
  argument. The arguments are the already formatted values; substituted text is not scanned
  again. A lone brace raises \<open>ValueError\<close>, a field without an argument left raises
  \<open>IndexError\<close>, surplus arguments are ignored. Any other field syntax is outside the fragment
  and yields \<open>UnsupportedField\<close>.
\<close>

definition lbrace :: nat where "lbrace = 123"
definition rbrace :: nat where "rbrace = 125"

fun py_format :: "pystr \<Rightarrow> pystr list \<Rightarrow> py_error + pystr" where
  "py_format [] args = Inr []"
| "py_format [c] args = (if c = lbrace \<or> c = rbrace then Inl ValueError else Inr [c])"
| "py_format (c # d # ds) args =
     (if c = lbrace then
        (if d = lbrace then map_sum id ((#) lbrace) (py_format ds args)
         else if d = rbrace then
           (case args of
              [] \<Rightarrow> Inl IndexError
            | a # as \<Rightarrow> map_sum id ((@) a) (py_format ds as))
         else Inl UnsupportedField)
      else if c = rbrace then
        (if d = rbrace then map_sum id ((#) rbrace) (py_format ds args) else Inl ValueError)
      else map_sum id ((#) c) (py_format (d # ds) args))"

subsection \<open>\<open>in\<close> and subscription with a string key\<close>

fun py_substring :: "pystr \<Rightarrow> pystr \<Rightarrow> bool" where
  "py_substring needle [] = (needle = [])"
| "py_substring needle (c # cs) =
     (take (length needle) (c # cs) = needle \<or> py_substring needle cs)"

text \<open>
  \<open>key in v\<close> for a string \<open>key\<close>: key membership on a dict, substring test on a string,
  element membership on a list, \<open>TypeError\<close> on \<open>None\<close>, booleans and numbers.
\<close>

definition py_in :: "pystr \<Rightarrow> pyval \<Rightarrow> py_error + bool" where
  "py_in key v =
     (case v of
        PyDict kvs \<Rightarrow> Inr (key \<in> set (map fst kvs))
      | PyStr s \<Rightarrow> Inr (py_substring key s)
      | PyList xs \<Rightarrow> Inr (PyStr key \<in> set xs)
      | _ \<Rightarrow> Inl TypeError)"

text \<open>
  \<open>v[key]\<close> for a string \<open>key\<close>: the value on a dict (\<open>KeyError\<close> if absent), \<open>TypeError\<close> on
  everything else (strings and lists take integer indices only).
\<close>

definition py_getitem :: "pyval \<Rightarrow> pystr \<Rightarrow> py_error + pyval" where
  "py_getitem v key =
     (case v of
        PyDict kvs \<Rightarrow> (case map_of kvs key of Some x \<Rightarrow> Inr x | None \<Rightarrow> Inl KeyError)
      | _ \<Rightarrow> Inl TypeError)"

section \<open>The remote inference service\<close>

text \<open>
  \<open>requests.post(url, headers=..., json=...)\<close> sends one request and either raises or gives a
  response. The service is a function from the requests made before and the current request
  to that outcome. Of the response the client reads \<open>status_code\<close>, \<open>text\<close> and what
  \<open>json()\<close> gives, which is an exception when the body is not JSON.
\<close>

record request =
  url :: pystr
  headers :: "(pystr \<times> pystr) list"
  json_payload :: pyval

record response =
  status_code :: int
  body_text :: pystr
  body_json :: "py_error + pyval"

type_synonym remote = "request list \<Rightarrow> request \<Rightarrow> py_error + response"

definition requests_post ::
  "remote \<Rightarrow> pystr \<Rightarrow> (pystr \<times> pystr) list \<Rightarrow> pyval \<Rightarrow> request list \<Rightarrow>
     (py_error + response) \<times> request list" where
  "requests_post service u hs payload sent =
     (let req = \<lparr>url = u, headers = hs, json_payload = payload\<rparr>
      in (service sent req, sent @ [req]))"

section \<open>Helper functions of the application\<close>

subsection \<open>\<open>refine_prompt\<close>\<close>

definition prompt_template :: pystr where
  "prompt_template =
     lit ''Details: W:{}kg, H:{}cm, Act:{}; Restr:{}; Goal:{}.\<newline>'' @
     lit ''Query: {}.\<newline>'' @
     lit ''Plan: Provide calorie intake, nutrient (g) breakdown, meal suggestions, and guidelines.''"

text \<open>
  The weight and the height come from number widgets; how Python renders such a number
  (\<open>format(x, '')\<close>) is the parameter \<open>fmt\<close>. The other arguments are strings, which
  \<open>format\<close> inserts as they are.
\<close>

definition refine_prompt ::
  "('n \<Rightarrow> pystr) \<Rightarrow> pystr \<Rightarrow> 'n \<Rightarrow> 'n \<Rightarrow> pystr \<Rightarrow> pystr \<Rightarrow> pystr \<Rightarrow> py_error + pystr" where
  "refine_prompt fmt nutrition_query weight height activity_level food_restriction goal =
     py_format prompt_template
       [fmt weight, fmt height, activity_level, food_restriction, goal, py_strip nutrition_query]"

text \<open>
  The prompt as the specification words it: the three template lines with the six values
  written into their places.
\<close>

definition substituted_template ::
  "pystr \<Rightarrow> pystr \<Rightarrow> pystr \<Rightarrow> pystr \<Rightarrow> pystr \<Rightarrow> pystr \<Rightarrow> pystr" where
  "substituted_template weight_text height_text activity restriction goal trimmed_query =
     lit ''Details: W:'' @ weight_text @ lit ''kg, H:'' @ height_text @ lit ''cm, Act:'' @
     activity @ lit ''; Restr:'' @ restriction @ lit ''; Goal:'' @ goal @ lit ''.\<newline>'' @
     lit ''Query: '' @ trimmed_query @ lit ''.\<newline>'' @
     lit ''Plan: Provide calorie intake, nutrient (g) breakdown, meal suggestions, and guidelines.''"

subsection \<open>\<open>enforce_free_tier_limit\<close>\<close>

text \<open>
  The slice \<open>xs[:stop]\<close>: a negative \<open>stop\<close> counts from the end, and the bound is clipped to
  the range of the sequence.
\<close>

definition py_slice_to :: "'a list \<Rightarrow> int \<Rightarrow> 'a list" where
  "py_slice_to xs stop =
     (let n = int (length xs);
          j = (if stop < 0 then max 0 (n + stop) else min stop n)
      in take (nat j) xs)"

definition enforce_free_tier_limit :: "'a list \<Rightarrow> int \<Rightarrow> 'a list" where
  "enforce_free_tier_limit prompt limit =
     (if int (length prompt) > limit then py_slice_to prompt limit else prompt)"

subsection \<open>\<open>verify_with_medical_db\<close>\<close>

definition verify_with_medical_db :: "'a \<Rightarrow> bool \<times> pystr" where
  "verify_with_medical_db response_text =
     (let verified = True;
          verification_message =
            lit ''Response verified against trusted nutrition and medical databases.''
      in (verified, verification_message))"

subsection \<open>\<open>call_deepseek_api\<close>\<close>

definition DEEPSEEK_MODEL_URL :: pystr where
  "DEEPSEEK_MODEL_URL =
     lit ''https://api-inference.huggingface.co/models/mistralai/Mistral-7B-Instruct-v0.3''"

text \<open>
  The module-level API key is the parameter \<open>api_key\<close>, Python's \<open>str\<close> on a parsed body is
  the parameter \<open>str_of\<close>, and the requests sent so far are threaded through. The result
  is what the function returns or the exception that leaves it, with the updated list of
  requests.
\<close>

definition call_deepseek_api ::
  "pystr \<Rightarrow> (pyval \<Rightarrow> pystr) \<Rightarrow> remote \<Rightarrow> pystr \<Rightarrow> request list \<Rightarrow>
     (py_error + pyval) \<times> request list" where
  "call_deepseek_api api_key str_of service prompt sent =
     (let hdrs = [(lit ''Authorization'', lit ''Bearer '' @ api_key),
                  (lit ''Content-Type'', lit ''application/json'')];
          payload = PyDict [(lit ''inputs'', PyStr prompt),
                            (lit ''parameters'', PyDict [(lit ''max_new_tokens'', PyInt 256)])];
          (r, sent') = requests_post service DEEPSEEK_MODEL_URL hdrs payload sent
      in (case r of
            Inl e \<Rightarrow> Inl e
          | Inr resp \<Rightarrow>
              if status_code resp \<noteq> 200
              then Inr (PyStr (lit ''Error: '' @ py_str_int (status_code resp) @ lit '' - '' @
                               body_text resp))
              else
                (case body_json resp of
                   Inl e \<Rightarrow> Inl e
                 | Inr result \<Rightarrow>
                     (case result of
                        PyList (first # rest) \<Rightarrow>
                          (case py_in (lit ''generated_text'') first of
                             Inl e \<Rightarrow> Inl e
                           | Inr True \<Rightarrow> py_getitem first (lit ''generated_text'')
                           | Inr False \<Rightarrow> Inr (PyStr (str_of result)))
                      | _ \<Rightarrow> Inr (PyStr (str_of result)))),
          sent'))"

section \<open>The script\<close>

text \<open>
  One run of the script. What the widgets return in this run is the input; what the run
  displays and what it sends are the output. The form block with its headers and widgets
  is the single event \<open>StForm\<close>, every other display call is an event of its own.
\<close>

datatype ui_event =
    StTitle pystr
  | StMarkdown pystr
  | StForm pystr
  | StError pystr
  | StSubheader pystr
  | StCode pystr
  | StWarning pystr
  | StInfo pystr
  | StWrite pyval
  | StSuccess pystr
  | StTextInput pystr

record 'n widgets =
  name :: pystr
  age :: int
  gender :: pystr
  weight :: 'n
  height :: 'n
  activity_level :: pystr
  food_restriction :: pystr
  goal :: pystr
  nutrition_query :: pystr
  submitted :: bool
  additional_info :: pystr

text \<open>
  A run ends normally, is ended by \<open>st.stop()\<close>, or is left by an exception that nothing
  in the script catches.
\<close>

datatype outcome = Finished | Stopped | Raised py_error

record run =
  ui_log :: "ui_event list"
  http_log :: "request list"
  outcome :: outcome

definition welcome_text :: pystr where
  "welcome_text =
     lit ''\<newline>        Welcome to the **AI Nutrition Diet Planner** using Hugging Face's DeepSeek model.\<newline>'' @
     lit ''        Please provide your details and describe your nutrition query, dietary concerns, or specific diet preferences.\<newline>'' @
     lit ''        Our AI agent will analyze your input and generate a personalized nutrition plan tailored to your profile.\<newline>'' @
     lit ''        **Note:** This tool is for informational purposes only and does not substitute professional nutritional or medical advice.\<newline>'' @
     lit ''        ''"

definition form_events :: "ui_event list" where
  "form_events =
     [StTitle (lit ''AI Nutrition Diet Planner (Hugging Face DeepSeek)''),
      StMarkdown welcome_text,
      StForm (lit ''nutrition_form'')]"

text \<open>The body of \<open>if additional_info.strip():\<close>, entered with the events and requests so far.\<close>

definition main_followup ::
  "pystr \<Rightarrow> ('n \<Rightarrow> pystr) \<Rightarrow> (pyval \<Rightarrow> pystr) \<Rightarrow> remote \<Rightarrow> 'n widgets \<Rightarrow>
     ui_event list \<Rightarrow> request list \<Rightarrow> run" where
  "main_followup api_key fmt str_of service w ui sent =
     (case refine_prompt fmt (additional_info w) (weight w) (height w) (activity_level w)
             (food_restriction w) (goal w) of
        Inl e \<Rightarrow> \<lparr>ui_log = ui, http_log = sent, outcome = Raised e\<rparr>
      | Inr refined_followup_prompt \<Rightarrow>
          (let truncated_followup = enforce_free_tier_limit refined_followup_prompt 256;
               total_followup_length = int (length truncated_followup);
               ui1 = ui @
                 [StMarkdown (lit ''**Refined Follow-Up Prompt (after free-tier enforcement):**''),
                  StCode truncated_followup,
                  StMarkdown (lit ''**Total Follow-Up Prompt Length:** '' @
                              py_str_int total_followup_length @ lit '' characters'')];
               ui2 = (if length refined_followup_prompt \<noteq> length truncated_followup
                      then ui1 @ [StWarning (lit ''Your follow-up input was automatically truncated to meet the free-tier limit.'')]
                      else ui1);
               ui3 = ui2 @ [StInfo (lit ''Generating follow-up nutrition plan details using Hugging Face DeepSeek...'')];
               (r, sent') = call_deepseek_api api_key str_of service truncated_followup sent
           in (case r of
                 Inl e \<Rightarrow> \<lparr>ui_log = ui3, http_log = sent', outcome = Raised e\<rparr>
               | Inr followup_response \<Rightarrow>
                   (let ui4 = ui3 @
                          [StMarkdown (lit ''**Follow-Up Response from Hugging Face DeepSeek:**''),
                           StWrite followup_response];
                        (verified, verification_message) =
                          verify_with_medical_db followup_response;
                        ui5 = ui4 @
                          [if verified
                           then StSuccess (lit ''Follow-Up Response Verified: '' @ verification_message)
                           else StWarning (lit ''Follow-Up Verification Warning: '' @ verification_message)]
                    in \<lparr>ui_log = ui5, http_log = sent', outcome = Finished\<rparr>))))"

definition main ::
  "pystr \<Rightarrow> ('n \<Rightarrow> pystr) \<Rightarrow> (pyval \<Rightarrow> pystr) \<Rightarrow> remote \<Rightarrow> 'n widgets \<Rightarrow> run" where
  "main api_key fmt str_of service w =
     (if submitted w then
        (if py_strip (nutrition_query w) = [] then
           \<lparr>ui_log = form_events @
              [StError (lit ''Please enter your nutrition query or dietary preferences.'')],
            http_log = [], outcome = Finished\<rparr>
         else
           (let ui1 = form_events @ [StSubheader (lit ''Processing your input...'')]
            in (case refine_prompt fmt (nutrition_query w) (weight w) (height w)
                       (activity_level w) (food_restriction w) (goal w) of
                  Inl e \<Rightarrow> \<lparr>ui_log = ui1, http_log = [], outcome = Raised e\<rparr>
                | Inr engineered_prompt \<Rightarrow>
                    (let ui2 = ui1 @
                           [StMarkdown (lit ''**Engineered Prompt (before free-tier enforcement):**''),
                            StCode engineered_prompt];
                         truncated_prompt = enforce_free_tier_limit engineered_prompt 256;
                         total_length = int (length truncated_prompt);
                         ui3 = ui2 @
                           [StMarkdown (lit ''**Total Prompt Length:** '' @
                                        py_str_int total_length @ lit '' characters'')];
                         ui4 = (if length engineered_prompt \<noteq> length truncated_prompt
                                then ui3 @ [StWarning (lit ''Your nutrition query was automatically truncated to meet the free-tier limit.'')]
                                else ui3);
                         ui5 = ui4 @ [StInfo (lit ''Generating your personalized nutrition plan using Hugging Face DeepSeek...'')];
                         (r, sent) = call_deepseek_api api_key str_of service truncated_prompt []
                     in (case r of
                           Inl e \<Rightarrow> \<lparr>ui_log = ui5, http_log = sent, outcome = Raised e\<rparr>
                         | Inr deepseek_response \<Rightarrow>
                             (let ui6 = ui5 @
                                    [StMarkdown (lit ''**Response from Hugging Face DeepSeek:**''),
                                     StWrite deepseek_response];
                                  (verified, verification_message) =
                                    verify_with_medical_db deepseek_response;
                                  ui7 = ui6 @
                                    [if verified
                                     then StSuccess (lit ''Verification Successful: '' @ verification_message)
                                     else StWarning (lit ''Verification Warning: '' @ verification_message)];
                                  ui8 = ui7 @
                                    [StMarkdown (lit ''---''),
                                     StSubheader (lit ''Need Further Clarification?''),
                                     StTextInput (lit ''Provide any additional details or clarifications'')]
                              in if py_strip (additional_info w) \<noteq> []
                                 then main_followup api_key fmt str_of service w ui8 sent
                                 else \<lparr>ui_log = ui8, http_log = sent, outcome = Finished\<rparr>))))))
      else \<lparr>ui_log = form_events, http_log = [], outcome = Finished\<rparr>)"

subsection \<open>Module level: the API key\<close>

text \<open>
  \<open>os.environ.get\<close> gives \<open>None\<close> for an unset variable. \<open>not HUGGINGFACE_API_KEY\<close> holds for
  \<open>None\<close> and for the empty string; then the script reports the error and \<open>st.stop()\<close> ends
  the run before \<open>main\<close> is reached.
\<close>

definition HUGGINGFACE_API_KEY :: "(pystr \<rightharpoonup> pystr) \<Rightarrow> pystr option" where
  "HUGGINGFACE_API_KEY environ = environ (lit ''HUGGINGFACE_API_KEY'')"

definition key_not_found :: run where
  "key_not_found =
     \<lparr>ui_log = [StError (lit ''Hugging Face API key not found. Please set it in your Space secrets as HUGGINGFACE_API_KEY.'')],
      http_log = [], outcome = Stopped\<rparr>"

definition script ::
  "(pystr \<rightharpoonup> pystr) \<Rightarrow> ('n \<Rightarrow> pystr) \<Rightarrow> (pyval \<Rightarrow> pystr) \<Rightarrow> remote \<Rightarrow> 'n widgets \<Rightarrow> run" where
  "script environ fmt str_of service w =
     (case HUGGINGFACE_API_KEY environ of
        None \<Rightarrow> key_not_found
      | Some api_key \<Rightarrow>
          if api_key = [] then key_not_found else main api_key fmt str_of service w)"

section \<open>Notions used in the statements\<close>

text \<open>
  The one request the client makes for a prompt: a POST to the fixed endpoint with the bearer
  token and the JSON body \<open>{"inputs": prompt, "parameters": {"max_new_tokens": 256}}\<close>.
\<close>

definition deepseek_request :: "pystr \<Rightarrow> pystr \<Rightarrow> request" where
  "deepseek_request api_key prompt =
     \<lparr>url = DEEPSEEK_MODEL_URL,
      headers = [(lit ''Authorization'', lit ''Bearer '' @ api_key),
                 (lit ''Content-Type'', lit ''application/json'')],
      json_payload = PyDict [(lit ''inputs'', PyStr prompt),
                             (lit ''parameters'', PyDict [(lit ''max_new_tokens'', PyInt 256)])]\<rparr>"

text \<open>A simulated service that gives the same response to every request.\<close>

definition always_responds :: "response \<Rightarrow> remote" where
  "always_responds resp sent req = Inr resp"

text \<open>A simulated \<open>str\<close> that renders every value as the given text.\<close>

definition str_as :: "pystr \<Rightarrow> pyval \<Rightarrow> pystr" where
  "str_as rendered v = rendered"

text \<open>
  A sample submission, whose number widgets are given by their rendered text (so that the
  rendering function is \<open>id\<close>).
\<close>

definition sample_widgets :: "pystr widgets" where
  "sample_widgets =
     \<lparr>name = lit ''Ann'', age = 25, gender = lit ''Female'',
      weight = lit ''70.0'', height = lit ''170.0'', activity_level = lit ''Sedentary'',
      food_restriction = lit ''None'', goal = lit ''Maintenance'',
      nutrition_query = lit ''  lose weight  '', submitted = True,
      additional_info = lit ''more protein''\<rparr>"

definition generated_x :: response where
  "generated_x =
     \<lparr>status_code = 200, body_text = lit ''[{\"generated_text\": \"X\"}]'',
      body_json = Inr (PyList [PyDict [(lit ''generated_text'', PyStr (lit ''X''))]])\<rparr>"

section \<open>Properties of the limit enforcer\<close>

lemma py_slice_to_nonneg: "0 \<le> stop \<Longrightarrow> py_slice_to xs stop = take (nat stop) xs"
  by (simp add: py_slice_to_def Let_def min_def)

lemma py_slice_to_neg: "stop < 0 \<Longrightarrow> py_slice_to xs stop = take (length xs - nat (- stop)) xs"
  by (auto simp add: py_slice_to_def Let_def max_def intro!: arg_cong2[where f=take])

lemma butlast_funpow_take: "(butlast ^^ n) xs = take (length xs - n) xs"
proof (induction n)
  case 0
  show ?case by simp
next
  case (Suc n)
  have "(butlast ^^ Suc n) xs = butlast (take (length xs - n) xs)"
    by (simp add: Suc)
  also have "\<dots> = take (length xs - n - 1) xs"
    by (simp add: butlast_take)
  finally show ?case by simp
qed

text \<open>
  C2. For every string \<open>s\<close> and every limit \<open>L \<ge> 0\<close> the result of
  \<open>enforce_free_tier_limit\<close> has length \<open>min (len s) L\<close>: it is \<open>s\<close> itself when
  \<open>len s \<le> L\<close> and the first \<open>L\<close> characters of \<open>s\<close> otherwise.
\<close>

theorem enforce_free_tier_limit_nonneg:
  assumes "0 \<le> L"
  shows "int (length (enforce_free_tier_limit s L)) = min (int (length s)) L
       \<and> (int (length s) \<le> L \<longrightarrow> enforce_free_tier_limit s L = s)
       \<and> (L < int (length s) \<longrightarrow> enforce_free_tier_limit s L = take (nat L) s)"
  using assms by (auto simp add: enforce_free_tier_limit_def py_slice_to_nonneg)

theorem enforce_free_tier_limit_nonneg_witness:
  "(0::int) \<le> 4
   \<and> int (length (enforce_free_tier_limit (lit ''abcdef'') 4)) = min (int (length (lit ''abcdef''))) 4
   \<and> enforce_free_tier_limit (lit ''abcdef'') 4 = lit ''abcd''
   \<and> enforce_free_tier_limit (lit ''abc'') 4 = lit ''abc''"
  using enforce_free_tier_limit_nonneg [of 4 "lit ''abcdef''"]
        enforce_free_tier_limit_nonneg [of 4 "lit ''abc''"]
  by (simp add: lit_def)

text \<open>
  C5, as stated for every limit, fails: with the limit \<open>-1\<close> each application removes one more
  character.
\<close>

theorem enforce_free_tier_limit_not_idempotent:
  "enforce_free_tier_limit (enforce_free_tier_limit (lit ''ab'') (- 1)) (- 1)
     \<noteq> enforce_free_tier_limit (lit ''ab'') (- 1)"
  by (simp add: enforce_free_tier_limit_def py_slice_to_def lit_def)

text \<open>
  C5, amended. \<open>enforce_free_tier_limit\<close> is idempotent for every string and every limit
  \<open>L \<ge> 0\<close>; for a negative limit it is idempotent exactly on the strings of length at most
  \<open>|L|\<close>.
\<close>

theorem enforce_free_tier_limit_idempotent_iff:
  "enforce_free_tier_limit (enforce_free_tier_limit s L) L = enforce_free_tier_limit s L
     \<longleftrightarrow> 0 \<le> L \<or> int (length s) \<le> - L"
proof (cases "0 \<le> L")
  case True
  then show ?thesis by (auto simp add: enforce_free_tier_limit_def py_slice_to_nonneg)
next
  case False
  then have neg: "L < 0" by simp
  have e: "\<And>xs::'a list. enforce_free_tier_limit xs L = take (length xs - nat (- L)) xs"
    using neg by (simp add: enforce_free_tier_limit_def py_slice_to_neg)
  show ?thesis
  proof (cases "int (length s) \<le> - L")
    case True
    then show ?thesis using neg by (simp add: e)
  next
    case False
    have "length (enforce_free_tier_limit (enforce_free_tier_limit s L) L)
            < length (enforce_free_tier_limit s L)"
      using False neg by (simp add: e)
    then show ?thesis using False neg by auto
  qed
qed

theorem enforce_free_tier_limit_idempotent_iff_witness:
  "enforce_free_tier_limit (enforce_free_tier_limit (lit ''abcdef'') 4) 4
     = enforce_free_tier_limit (lit ''abcdef'') 4
   \<and> enforce_free_tier_limit (enforce_free_tier_limit (lit ''ab'') (- 3)) (- 3)
     = enforce_free_tier_limit (lit ''ab'') (- 3)"
  using enforce_free_tier_limit_idempotent_iff [of "lit ''abcdef''" 4]
        enforce_free_tier_limit_idempotent_iff [of "lit ''ab''" "- 3"]
  by (simp add: lit_def)

text \<open>
  C9. For a negative limit \<open>L\<close> the result is \<open>s\<close> with its last \<open>|L|\<close> characters removed, of
  length \<open>max 0 (len s + L)\<close>, which is never \<open>min (len s) L\<close>.
\<close>

theorem enforce_free_tier_limit_negative:
  assumes "L < 0"
  shows "enforce_free_tier_limit s L = (butlast ^^ nat (- L)) s
       \<and> int (length (enforce_free_tier_limit s L)) = max 0 (int (length s) + L)
       \<and> int (length (enforce_free_tier_limit s L)) \<noteq> min (int (length s)) L"
  using assms
  by (auto simp add: enforce_free_tier_limit_def py_slice_to_neg butlast_funpow_take)

theorem enforce_free_tier_limit_negative_witness:
  "(- 2 :: int) < 0
   \<and> enforce_free_tier_limit (lit ''abcde'') (- 2) = lit ''abc''
   \<and> int (length (enforce_free_tier_limit (lit ''abcde'') (- 2))) = 3"
  using enforce_free_tier_limit_negative [of "- 2" "lit ''abcde''"]
  by (simp add: lit_def numeral_2_eq_2)

section \<open>The verification stub\<close>

text \<open>
  C7. For every input, the empty string included, \<open>verify_with_medical_db\<close> returns the pair
  of \<open>True\<close> and the fixed message.
\<close>

theorem verify_with_medical_db_constant:
  "verify_with_medical_db response_text =
     (True, lit ''Response verified against trusted nutrition and medical databases.'')
   \<and> verify_with_medical_db ([] :: pystr) = verify_with_medical_db response_text"
  by (simp add: verify_with_medical_db_def)

section \<open>Properties of the prompt builder\<close>

lemma py_strip_prefix_dropWhile:
  "dropWhile py_isspace s =
     py_strip s @ rev (takeWhile py_isspace (rev (dropWhile py_isspace s)))"
  unfolding py_strip_def by (metis rev_append rev_rev_ident takeWhile_dropWhile_id)

lemma py_strip_decomp:
  "s = takeWhile py_isspace s @ py_strip s @
       rev (takeWhile py_isspace (rev (dropWhile py_isspace s)))"
proof -
  have "takeWhile py_isspace s @ dropWhile py_isspace s =
      takeWhile py_isspace s @ py_strip s @
        rev (takeWhile py_isspace (rev (dropWhile py_isspace s)))"
    using py_strip_prefix_dropWhile [of s] by (rule arg_cong)
  then show ?thesis by (simp only: takeWhile_dropWhile_id)
qed

lemma py_strip_surrounded:
  "\<exists>pre post. s = pre @ py_strip s @ post
     \<and> (\<forall>c\<in>set pre. py_isspace c) \<and> (\<forall>c\<in>set post. py_isspace c)"
proof (intro exI conjI)
  show "s = takeWhile py_isspace s @ py_strip s @
          rev (takeWhile py_isspace (rev (dropWhile py_isspace s)))"
    by (rule py_strip_decomp)
  show "\<forall>c\<in>set (takeWhile py_isspace s). py_isspace c"
    by (auto dest: set_takeWhileD)
  show "\<forall>c\<in>set (rev (takeWhile py_isspace (rev (dropWhile py_isspace s)))). py_isspace c"
    by (auto dest: set_takeWhileD)
qed

lemma py_strip_last: "py_strip s \<noteq> [] \<Longrightarrow> \<not> py_isspace (last (py_strip s))"
  by (simp add: py_strip_def last_rev hd_dropWhile)

lemma py_strip_hd:
  assumes "py_strip s \<noteq> []"
  shows "\<not> py_isspace (hd (py_strip s))"
proof -
  let ?t = "dropWhile py_isspace s"
  have t: "?t = py_strip s @ rev (takeWhile py_isspace (rev ?t))"
    by (rule py_strip_prefix_dropWhile)
  then have ne: "?t \<noteq> []" using assms by (metis append_is_Nil_conv)
  have "hd ?t = hd (py_strip s)" using assms t by (metis hd_append2)
  moreover have "\<not> py_isspace (hd ?t)" using ne by (rule hd_dropWhile)
  ultimately show ?thesis by simp
qed

lemma dropWhile_all_iff: "(\<forall>x\<in>set (dropWhile P xs). P x) \<longleftrightarrow> (\<forall>x\<in>set xs. P x)"
  by (induction xs) auto

lemma py_strip_blank_iff: "py_strip s = [] \<longleftrightarrow> (\<forall>c\<in>set s. py_isspace c)"
  by (simp add: py_strip_def dropWhile_eq_Nil_conv dropWhile_all_iff)

text \<open>
  Stripping gives back the core of a string that is surrounded by whitespace, whatever
  whitespace the core has inside.
\<close>

lemma py_strip_core:
  assumes "\<forall>c\<in>set pre. py_isspace c" "\<forall>c\<in>set post. py_isspace c"
    and "core \<noteq> []" "\<not> py_isspace (hd core)" "\<not> py_isspace (last core)"
  shows "py_strip (pre @ core @ post) = core"
proof -
  have "dropWhile py_isspace (pre @ core @ post) = dropWhile py_isspace (core @ post)"
    by (rule dropWhile_append2) (use assms in auto)
  also have "\<dots> = core @ post"
    using assms by (cases core) simp_all
  finally have a: "dropWhile py_isspace (pre @ core @ post) = core @ post" .
  have "dropWhile py_isspace (rev post @ rev core) = dropWhile py_isspace (rev core)"
    by (rule dropWhile_append2) (use assms in auto)
  also have "\<dots> = rev core"
    using assms by (simp add: dropWhile_eq_self_iff hd_rev)
  finally show ?thesis by (simp add: py_strip_def a)
qed

lemma refine_prompt_eq:
  "refine_prompt fmt q w h a r g =
     Inr (substituted_template (fmt w) (fmt h) a r g (py_strip q))"
  by (simp add: refine_prompt_def substituted_template_def prompt_template_def lit_def
        lbrace_def rbrace_def)

lemma substituted_template_contains:
  assumes "v \<in> set [wt, ht, a, r, g, q]"
  shows "\<exists>pre post. substituted_template wt ht a r g q = pre @ v @ post"
proof -
  have mid: "\<And>xs ys zs. \<exists>pre post. xs @ (ys::pystr) @ zs = pre @ ys @ post"
    by blast
  from assms consider "v = wt" | "v = ht" | "v = a" | "v = r" | "v = g" | "v = q"
    by auto
  then show ?thesis
  proof cases
    case 1
    show ?thesis unfolding 1 substituted_template_def by (rule mid)
  next
    case 2
    show ?thesis unfolding 2 substituted_template_def
      using mid [of "lit ''Details: W:'' @ wt @ lit ''kg, H:''" ht] by simp
  next
    case 3
    show ?thesis unfolding 3 substituted_template_def
      using mid [of "lit ''Details: W:'' @ wt @ lit ''kg, H:'' @ ht @ lit ''cm, Act:''" a]
      by simp
  next
    case 4
    show ?thesis unfolding 4 substituted_template_def
      using mid [of "lit ''Details: W:'' @ wt @ lit ''kg, H:'' @ ht @ lit ''cm, Act:'' @ a @
                       lit ''; Restr:''" r]
      by simp
  next
    case 5
    show ?thesis unfolding 5 substituted_template_def
      using mid [of "lit ''Details: W:'' @ wt @ lit ''kg, H:'' @ ht @ lit ''cm, Act:'' @ a @
                       lit ''; Restr:'' @ r @ lit ''; Goal:''" g]
      by simp
  next
    case 6
    show ?thesis unfolding 6 substituted_template_def
      using mid [of "lit ''Details: W:'' @ wt @ lit ''kg, H:'' @ ht @ lit ''cm, Act:'' @ a @
                       lit ''; Restr:'' @ r @ lit ''; Goal:'' @ g @ lit ''.\<newline>'' @
                       lit ''Query: ''" q]
      by simp
  qed
qed

text \<open>
  C3. \<open>refine_prompt\<close> never raises and returns the three template lines with the rendered
  weight and height, the activity level, the restriction, the goal and the stripped query in
  their places, so each of these occurs in the prompt. The stripped query is the query
  without the whitespace at its two ends: what is removed is whitespace only, and what is
  left neither starts nor ends with whitespace. For the documented sample the prompt is the
  documented text.
\<close>

theorem refine_prompt_fills_template:
  "refine_prompt fmt q w h a r g =
     Inr (substituted_template (fmt w) (fmt h) a r g (py_strip q))
   \<and> (\<exists>pre post. q = pre @ py_strip q @ post
         \<and> (\<forall>c\<in>set pre. py_isspace c) \<and> (\<forall>c\<in>set post. py_isspace c))
   \<and> (py_strip q \<noteq> [] \<longrightarrow>
         \<not> py_isspace (hd (py_strip q)) \<and> \<not> py_isspace (last (py_strip q)))
   \<and> (\<forall>v\<in>set [fmt w, fmt h, a, r, g, py_strip q].
         \<exists>pre post. substituted_template (fmt w) (fmt h) a r g (py_strip q) = pre @ v @ post)
   \<and> (fmt w = lit ''70.0'' \<and> fmt h = lit ''170.0'' \<and> a = lit ''Sedentary'' \<and> r = lit ''None''
        \<and> g = lit ''Maintenance'' \<and> q = lit ''  lose weight  '' \<longrightarrow>
        refine_prompt fmt q w h a r g =
          Inr (lit ''Details: W:70.0kg, H:170.0cm, Act:Sedentary; Restr:None; Goal:Maintenance.\<newline>'' @
               lit ''Query: lose weight.\<newline>'' @
               lit ''Plan: Provide calorie intake, nutrient (g) breakdown, meal suggestions, and guidelines.''))"
proof (intro conjI)
  show "refine_prompt fmt q w h a r g =
          Inr (substituted_template (fmt w) (fmt h) a r g (py_strip q))"
    by (rule refine_prompt_eq)
  show "\<exists>pre post. q = pre @ py_strip q @ post
         \<and> (\<forall>c\<in>set pre. py_isspace c) \<and> (\<forall>c\<in>set post. py_isspace c)"
    by (rule py_strip_surrounded)
  show "py_strip q \<noteq> [] \<longrightarrow>
         \<not> py_isspace (hd (py_strip q)) \<and> \<not> py_isspace (last (py_strip q))"
    by (simp add: py_strip_hd py_strip_last)
  show "\<forall>v\<in>set [fmt w, fmt h, a, r, g, py_strip q].
         \<exists>pre post. substituted_template (fmt w) (fmt h) a r g (py_strip q) = pre @ v @ post"
    using substituted_template_contains by blast
  have "py_strip (lit ''  lose weight  '') = lit ''lose weight''"
    by (simp add: py_strip_def lit_def py_isspace_def)
  then show "fmt w = lit ''70.0'' \<and> fmt h = lit ''170.0'' \<and> a = lit ''Sedentary'' \<and> r = lit ''None''
        \<and> g = lit ''Maintenance'' \<and> q = lit ''  lose weight  '' \<longrightarrow>
        refine_prompt fmt q w h a r g =
          Inr (lit ''Details: W:70.0kg, H:170.0cm, Act:Sedentary; Restr:None; Goal:Maintenance.\<newline>'' @
               lit ''Query: lose weight.\<newline>'' @
               lit ''Plan: Provide calorie intake, nutrient (g) breakdown, meal suggestions, and guidelines.'')"
    by (simp add: refine_prompt_eq substituted_template_def lit_def)
qed

theorem refine_prompt_fills_template_witness:
  "refine_prompt id (lit ''  lose weight  '') (lit ''70.0'') (lit ''170.0'') (lit ''Sedentary'')
      (lit ''None'') (lit ''Maintenance'') =
     Inr (lit ''Details: W:70.0kg, H:170.0cm, Act:Sedentary; Restr:None; Goal:Maintenance.\<newline>'' @
          lit ''Query: lose weight.\<newline>'' @
          lit ''Plan: Provide calorie intake, nutrient (g) breakdown, meal suggestions, and guidelines.'')
   \<and> py_strip (lit ''  lose weight  '') = lit ''lose weight''
   \<and> (\<exists>pre post. lit ''Details: W:70.0kg, H:170.0cm, Act:Sedentary; Restr:None; Goal:Maintenance.\<newline>'' @
          lit ''Query: lose weight.\<newline>'' @
          lit ''Plan: Provide calorie intake, nutrient (g) breakdown, meal suggestions, and guidelines.''
        = pre @ lit ''lose weight'' @ post)"
proof -
  have s: "py_strip (lit ''  lose weight  '') = lit ''lose weight''"
    by (simp add: py_strip_def lit_def py_isspace_def)
  have t: "substituted_template (lit ''70.0'') (lit ''170.0'') (lit ''Sedentary'') (lit ''None'')
       (lit ''Maintenance'') (lit ''lose weight'') =
     lit ''Details: W:70.0kg, H:170.0cm, Act:Sedentary; Restr:None; Goal:Maintenance.\<newline>'' @
          lit ''Query: lose weight.\<newline>'' @
          lit ''Plan: Provide calorie intake, nutrient (g) breakdown, meal suggestions, and guidelines.''"
    by (simp add: substituted_template_def lit_def)
  show ?thesis
    using refine_prompt_fills_template [of id "lit ''  lose weight  ''" "lit ''70.0''"
        "lit ''170.0''" "lit ''Sedentary''" "lit ''None''" "lit ''Maintenance''"]
    by (simp add: s t)
qed

section \<open>Properties of the inference client\<close>

lemma call_deepseek_api_sent:
  "snd (call_deepseek_api k str_of service p sent) = sent @ [deepseek_request k p]"
  by (simp add: call_deepseek_api_def requests_post_def deepseek_request_def Let_def)

lemma call_deepseek_api_sentD:
  "call_deepseek_api k str_of service p sent = (r, sent') \<Longrightarrow>
   sent' = sent @ [deepseek_request k p]"
  using call_deepseek_api_sent [of k str_of service p sent] by simp

lemma call_deepseek_api_raise:
  "service sent (deepseek_request k p) = Inl e \<Longrightarrow>
   fst (call_deepseek_api k str_of service p sent) = Inl e"
  by (simp add: call_deepseek_api_def requests_post_def deepseek_request_def Let_def)

lemma call_deepseek_api_response:
  "service sent (deepseek_request k p) = Inr resp \<Longrightarrow>
   fst (call_deepseek_api k str_of service p sent) =
     (if status_code resp \<noteq> 200
      then Inr (PyStr (lit ''Error: '' @ py_str_int (status_code resp) @ lit '' - '' @
                       body_text resp))
      else
        (case body_json resp of
           Inl e \<Rightarrow> Inl e
         | Inr result \<Rightarrow>
             (case result of
                PyList (first # rest) \<Rightarrow>
                  (case py_in (lit ''generated_text'') first of
                     Inl e \<Rightarrow> Inl e
                   | Inr True \<Rightarrow> py_getitem first (lit ''generated_text'')
                   | Inr False \<Rightarrow> Inr (PyStr (str_of result)))
              | _ \<Rightarrow> Inr (PyStr (str_of result)))))"
  by (simp add: call_deepseek_api_def requests_post_def deepseek_request_def Let_def)

text \<open>
  C1, as stated, fails: the status 201 is a success status, and the client returns the error
  string for it instead of reading the body.
\<close>

theorem call_deepseek_api_error_on_201:
  "(200::int) \<le> 201 \<and> (201::int) < 300
   \<and> fst (call_deepseek_api (lit ''hf_token'') (str_as [])
        (always_responds
           \<lparr>status_code = 201, body_text = lit ''[{\"generated_text\": \"X\"}]'',
            body_json = Inr (PyList [PyDict [(lit ''generated_text'', PyStr (lit ''X''))]])\<rparr>)
        (lit ''hello'') [])
      = Inr (PyStr (lit ''Error: 201 - [{\"generated_text\": \"X\"}]''))"
  by (simp add: call_deepseek_api_def requests_post_def always_responds_def Let_def
        py_str_int_def nat_digits.simps lit_def)

text \<open>
  C1, amended. For every response, \<open>call_deepseek_api\<close> returns the string
  \<open>Error: <status> - <body>\<close>, which starts with \<open>Error: \<close>, whenever the status is not 200
  (other 2xx statuses included). On the status 200 it goes on to the parsed body: it raises
  what \<open>json()\<close> raises, and otherwise its outcome is the string form of the parsed body, the
  subscription of its first element with \<open>generated_text\<close>, or a \<open>TypeError\<close>.
\<close>

theorem call_deepseek_api_error_unless_200:
  assumes "service sent (deepseek_request k p) = Inr resp"
  shows "(status_code resp \<noteq> 200 \<longrightarrow>
            fst (call_deepseek_api k str_of service p sent) =
              Inr (PyStr (lit ''Error: '' @ py_str_int (status_code resp) @ lit '' - '' @
                          body_text resp))
          \<and> (\<exists>v. fst (call_deepseek_api k str_of service p sent) = Inr (PyStr v)
                 \<and> take 7 v = lit ''Error: ''))
       \<and> (status_code resp = 200 \<longrightarrow>
            (\<forall>e. body_json resp = Inl e \<longrightarrow>
                 fst (call_deepseek_api k str_of service p sent) = Inl e)
          \<and> (\<forall>result. body_json resp = Inr result \<longrightarrow>
                fst (call_deepseek_api k str_of service p sent) = Inr (PyStr (str_of result))
              \<or> (\<exists>first rest. result = PyList (first # rest) \<and>
                    fst (call_deepseek_api k str_of service p sent) =
                      py_getitem first (lit ''generated_text''))
              \<or> fst (call_deepseek_api k str_of service p sent) = Inl TypeError))"
proof (intro conjI impI allI)
  note r = call_deepseek_api_response [of service sent k p resp str_of, OF assms]
  assume "status_code resp \<noteq> 200"
  then show "fst (call_deepseek_api k str_of service p sent) =
              Inr (PyStr (lit ''Error: '' @ py_str_int (status_code resp) @ lit '' - '' @
                          body_text resp))"
    by (simp add: r)
  then show "\<exists>v. fst (call_deepseek_api k str_of service p sent) = Inr (PyStr v)
                 \<and> take 7 v = lit ''Error: ''"
    by (simp add: lit_def)
next
  note r = call_deepseek_api_response [of service sent k p resp str_of, OF assms]
  fix e assume "status_code resp = 200" "body_json resp = Inl e"
  then show "fst (call_deepseek_api k str_of service p sent) = Inl e"
    by (simp add: r)
next
  note r = call_deepseek_api_response [of service sent k p resp str_of, OF assms]
  fix result assume "status_code resp = 200" "body_json resp = Inr result"
  then show "fst (call_deepseek_api k str_of service p sent) = Inr (PyStr (str_of result))
              \<or> (\<exists>first rest. result = PyList (first # rest) \<and>
                    fst (call_deepseek_api k str_of service p sent) =
                      py_getitem first (lit ''generated_text''))
              \<or> fst (call_deepseek_api k str_of service p sent) = Inl TypeError"
    by (auto simp add: r py_in_def split: pyval.splits list.splits sum.splits bool.splits)
qed

theorem call_deepseek_api_error_unless_200_witness:
  "fst (call_deepseek_api (lit ''hf_token'') (str_as [])
        (always_responds
           \<lparr>status_code = 404, body_text = lit ''Not Found'', body_json = Inl JSONDecodeError\<rparr>)
        (lit ''hello'') [])
      = Inr (PyStr (lit ''Error: 404 - Not Found''))
   \<and> fst (call_deepseek_api (lit ''hf_token'') (str_as [])
        (always_responds
           \<lparr>status_code = 200, body_text = lit ''oops'', body_json = Inl JSONDecodeError\<rparr>)
        (lit ''hello'') [])
      = Inl JSONDecodeError"
proof -
  let ?r1 = "\<lparr>status_code = 404, body_text = lit ''Not Found'',
              body_json = Inl JSONDecodeError\<rparr>"
  let ?r2 = "\<lparr>status_code = 200, body_text = lit ''oops'', body_json = Inl JSONDecodeError\<rparr>"
  have s1: "always_responds ?r1 [] (deepseek_request (lit ''hf_token'') (lit ''hello'')) = Inr ?r1"
    and s2: "always_responds ?r2 [] (deepseek_request (lit ''hf_token'') (lit ''hello'')) = Inr ?r2"
    by (simp_all add: always_responds_def)
  show ?thesis
    using call_deepseek_api_error_unless_200
            [where service = "always_responds ?r1" and sent = "[]" and k = "lit ''hf_token''"
               and p = "lit ''hello''" and resp = ?r1 and str_of = "str_as []", OF s1]
          call_deepseek_api_error_unless_200
            [where service = "always_responds ?r2" and sent = "[]" and k = "lit ''hf_token''"
               and p = "lit ''hello''" and resp = ?r2 and str_of = "str_as []", OF s2]
    by (simp add: py_str_int_def nat_digits.simps lit_def)
qed

text \<open>
  C4, as stated, fails twice: on the success status 202 the body is not read, and on the
  status 200 a body whose first element is not an object (here the list \<open>[1]\<close>) makes the
  membership test raise \<open>TypeError\<close> instead of giving the string form.
\<close>

theorem call_deepseek_api_shape_failures:
  "(200::int) \<le> 202 \<and> (202::int) < 300
   \<and> fst (call_deepseek_api (lit ''hf_token'') (str_as (lit ''[1]''))
        (always_responds
           \<lparr>status_code = 202, body_text = lit ''[{\"generated_text\": \"X\"}]'',
            body_json = Inr (PyList [PyDict [(lit ''generated_text'', PyStr (lit ''X''))]])\<rparr>)
        (lit ''hello'') [])
      \<noteq> Inr (PyStr (lit ''X''))
   \<and> fst (call_deepseek_api (lit ''hf_token'') (str_as (lit ''[1]''))
        (always_responds
           \<lparr>status_code = 200, body_text = lit ''[1]'', body_json = Inr (PyList [PyInt 1])\<rparr>)
        (lit ''hello'') [])
      = Inl TypeError"
  by (simp add: call_deepseek_api_def requests_post_def always_responds_def Let_def
        py_str_int_def nat_digits.simps lit_def py_in_def)

text \<open>
  C4, amended. On the status 200 with a body that parses: if the parsed value is a list whose
  first element is an object with the key \<open>generated_text\<close>, the client returns that field's
  value; if it is a list whose first element is an object without that key, the empty list,
  or not a list, the client returns the string form of the whole parsed value.
\<close>

theorem call_deepseek_api_on_parsed_body:
  assumes "service sent (deepseek_request k p) = Inr resp"
    and "status_code resp = 200" and "body_json resp = Inr result"
  shows "(\<forall>kvs rest. result = PyList (PyDict kvs # rest)
              \<and> lit ''generated_text'' \<in> fst ` set kvs \<longrightarrow>
            (\<exists>v. map_of kvs (lit ''generated_text'') = Some v \<and>
                 fst (call_deepseek_api k str_of service p sent) = Inr v))
       \<and> (\<forall>kvs rest. result = PyList (PyDict kvs # rest)
              \<and> lit ''generated_text'' \<notin> fst ` set kvs \<longrightarrow>
            fst (call_deepseek_api k str_of service p sent) = Inr (PyStr (str_of result)))
       \<and> (result = PyList [] \<longrightarrow>
            fst (call_deepseek_api k str_of service p sent) = Inr (PyStr (str_of result)))
       \<and> ((\<forall>xs. result \<noteq> PyList xs) \<longrightarrow>
            fst (call_deepseek_api k str_of service p sent) = Inr (PyStr (str_of result)))"
proof -
  note r = call_deepseek_api_response [of service sent k p resp str_of, OF assms(1)]
  have a: "\<And>kvs. lit ''generated_text'' \<in> fst ` set kvs \<Longrightarrow>
            \<exists>v. map_of kvs (lit ''generated_text'') = Some v"
    by (metis domD dom_map_of_conv_image_fst)
  show ?thesis
  proof (intro conjI allI impI)
    fix kvs rest
    assume h: "result = PyList (PyDict kvs # rest) \<and> lit ''generated_text'' \<in> fst ` set kvs"
    then obtain v where v: "map_of kvs (lit ''generated_text'') = Some v" using a by blast
    have "fst (call_deepseek_api k str_of service p sent) = Inr v"
      using h v assms(2,3) by (simp add: r py_in_def py_getitem_def)
    with v show "\<exists>v. map_of kvs (lit ''generated_text'') = Some v \<and>
                 fst (call_deepseek_api k str_of service p sent) = Inr v" by blast
  next
    fix kvs rest
    assume "result = PyList (PyDict kvs # rest) \<and> lit ''generated_text'' \<notin> fst ` set kvs"
    then show "fst (call_deepseek_api k str_of service p sent) = Inr (PyStr (str_of result))"
      using assms(2,3) by (simp add: r py_in_def)
  next
    assume "result = PyList []"
    then show "fst (call_deepseek_api k str_of service p sent) = Inr (PyStr (str_of result))"
      using assms(2,3) by (simp add: r)
  next
    assume "\<forall>xs. result \<noteq> PyList xs"
    then show "fst (call_deepseek_api k str_of service p sent) = Inr (PyStr (str_of result))"
      using assms(2,3) by (cases result) (simp_all add: r)
  qed
qed

theorem call_deepseek_api_on_parsed_body_witness:
  "fst (call_deepseek_api (lit ''hf_token'') (str_as (lit ''unused''))
        (always_responds generated_x) (lit ''hello'') [])
      = Inr (PyStr (lit ''X''))
   \<and> fst (call_deepseek_api (lit ''hf_token'') (str_as (lit ''{'unexpected': 'shape'}''))
        (always_responds
           \<lparr>status_code = 200, body_text = lit ''{\"unexpected\": \"shape\"}'',
            body_json = Inr (PyDict [(lit ''unexpected'', PyStr (lit ''shape''))])\<rparr>)
        (lit ''hello'') [])
      = Inr (PyStr (lit ''{'unexpected': 'shape'}''))"
proof -
  let ?r2 = "\<lparr>status_code = 200, body_text = lit ''{\"unexpected\": \"shape\"}'',
            body_json = Inr (PyDict [(lit ''unexpected'', PyStr (lit ''shape''))])\<rparr>"
  have s1: "always_responds generated_x [] (deepseek_request (lit ''hf_token'') (lit ''hello''))
              = Inr generated_x"
    and s2: "always_responds ?r2 [] (deepseek_request (lit ''hf_token'') (lit ''hello'')) = Inr ?r2"
    by (simp_all add: always_responds_def)
  show ?thesis
    using call_deepseek_api_on_parsed_body
            [where service = "always_responds generated_x" and sent = "[]"
               and k = "lit ''hf_token''" and p = "lit ''hello''" and resp = generated_x
               and result = "PyList [PyDict [(lit ''generated_text'', PyStr (lit ''X''))]]"
               and str_of = "str_as (lit ''unused'')", OF s1]
          call_deepseek_api_on_parsed_body
            [where service = "always_responds ?r2" and sent = "[]" and k = "lit ''hf_token''"
               and p = "lit ''hello''" and resp = ?r2
               and result = "PyDict [(lit ''unexpected'', PyStr (lit ''shape''))]"
               and str_of = "str_as (lit ''{'unexpected': 'shape'}'')", OF s2]
    by (simp add: str_as_def generated_x_def)
qed

section \<open>Properties of a run\<close>

lemma main_followup_http_log:
  "http_log (main_followup k fmt str_of service w ui sent) =
     sent @ [deepseek_request k (enforce_free_tier_limit
        (substituted_template (fmt (weight w)) (fmt (height w)) (activity_level w)
           (food_restriction w) (goal w) (py_strip (additional_info w))) 256)]"
  by (auto simp add: main_followup_def refine_prompt_eq Let_def verify_with_medical_db_def
        split: prod.splits sum.splits dest: call_deepseek_api_sentD)

lemma main_followup_shows_prompt:
  "StCode (enforce_free_tier_limit
        (substituted_template (fmt (weight w)) (fmt (height w)) (activity_level w)
           (food_restriction w) (goal w) (py_strip (additional_info w))) 256)
     \<in> set (ui_log (main_followup k fmt str_of service w ui sent))"
  by (auto simp add: main_followup_def refine_prompt_eq Let_def verify_with_medical_db_def
        split: prod.splits sum.splits)

lemma main_blank:
  "submitted w \<Longrightarrow> py_strip (nutrition_query w) = [] \<Longrightarrow>
   main k fmt str_of service w =
     \<lparr>ui_log = form_events @
        [StError (lit ''Please enter your nutrition query or dietary preferences.'')],
      http_log = [], outcome = Finished\<rparr>"
  by (simp add: main_def)

lemma main_not_submitted:
  "\<not> submitted w \<Longrightarrow>
   main k fmt str_of service w = \<lparr>ui_log = form_events, http_log = [], outcome = Finished\<rparr>"
  by (simp add: main_def)

lemma main_http_log:
  assumes "submitted w" "py_strip (nutrition_query w) \<noteq> []"
  shows "http_log (main k fmt str_of service w) =
     deepseek_request k (enforce_free_tier_limit
        (substituted_template (fmt (weight w)) (fmt (height w)) (activity_level w)
           (food_restriction w) (goal w) (py_strip (nutrition_query w))) 256) #
     (if py_strip (additional_info w) \<noteq> [] \<and>
         (\<exists>answer. fst (call_deepseek_api k str_of service (enforce_free_tier_limit
            (substituted_template (fmt (weight w)) (fmt (height w)) (activity_level w)
              (food_restriction w) (goal w) (py_strip (nutrition_query w))) 256) []) = Inr answer)
      then [deepseek_request k (enforce_free_tier_limit
        (substituted_template (fmt (weight w)) (fmt (height w)) (activity_level w)
           (food_restriction w) (goal w) (py_strip (additional_info w))) 256)]
      else [])"
  using assms
  by (auto simp add: main_def refine_prompt_eq Let_def verify_with_medical_db_def
        main_followup_http_log split: prod.splits sum.splits dest: call_deepseek_api_sentD)

lemma main_ui_log_followup:
  assumes "submitted w" "py_strip (nutrition_query w) \<noteq> []" "py_strip (additional_info w) \<noteq> []"
    and "fst (call_deepseek_api k str_of service (enforce_free_tier_limit
            (substituted_template (fmt (weight w)) (fmt (height w)) (activity_level w)
              (food_restriction w) (goal w) (py_strip (nutrition_query w))) 256) []) = Inr answer"
  shows "StCode (enforce_free_tier_limit
        (substituted_template (fmt (weight w)) (fmt (height w)) (activity_level w)
           (food_restriction w) (goal w) (py_strip (additional_info w))) 256)
     \<in> set (ui_log (main k fmt str_of service w))"
  using assms
  by (auto simp add: main_def refine_prompt_eq Let_def verify_with_medical_db_def
        main_followup_shows_prompt split: prod.splits sum.splits)

text \<open>
  C6. A submission whose query is empty or consists of whitespace only ends with the
  validation error as the only thing displayed after the form: no prompt is shown and no
  request is sent. A run sends a request only if the form was submitted and the stripped
  query is not empty.
\<close>

theorem main_rejects_blank_query:
  "(submitted w \<and> (\<forall>c\<in>set (nutrition_query w). py_isspace c) \<longrightarrow>
      main k fmt str_of service w =
        \<lparr>ui_log = form_events @
           [StError (lit ''Please enter your nutrition query or dietary preferences.'')],
         http_log = [], outcome = Finished\<rparr>)
   \<and> (http_log (main k fmt str_of service w) \<noteq> [] \<longrightarrow>
        submitted w \<and> py_strip (nutrition_query w) \<noteq> [])
   \<and> (py_strip (nutrition_query w) = [] \<longleftrightarrow> (\<forall>c\<in>set (nutrition_query w). py_isspace c))"
proof (intro conjI impI)
  assume "submitted w \<and> (\<forall>c\<in>set (nutrition_query w). py_isspace c)"
  then show "main k fmt str_of service w =
        \<lparr>ui_log = form_events @
           [StError (lit ''Please enter your nutrition query or dietary preferences.'')],
         http_log = [], outcome = Finished\<rparr>"
    by (simp add: main_blank py_strip_blank_iff)
next
  assume h: "http_log (main k fmt str_of service w) \<noteq> []"
  show "submitted w"
    using h main_not_submitted [of w k fmt str_of service] by (cases "submitted w") simp_all
  then show "py_strip (nutrition_query w) \<noteq> []"
    using h main_blank [of w k fmt str_of service] by (cases "py_strip (nutrition_query w) = []") simp_all
next
  show "py_strip (nutrition_query w) = [] \<longleftrightarrow> (\<forall>c\<in>set (nutrition_query w). py_isspace c)"
    by (rule py_strip_blank_iff)
qed

theorem main_rejects_blank_query_witness:
  "submitted (sample_widgets\<lparr>nutrition_query := lit ''   ''\<rparr>)
   \<and> py_strip (nutrition_query (sample_widgets\<lparr>nutrition_query := lit ''   ''\<rparr>)) = []
   \<and> main (lit ''hf_token'') id (str_as []) (always_responds generated_x)
        (sample_widgets\<lparr>nutrition_query := lit ''   ''\<rparr>) =
       \<lparr>ui_log = form_events @
          [StError (lit ''Please enter your nutrition query or dietary preferences.'')],
        http_log = [], outcome = Finished\<rparr>"
  using main_rejects_blank_query [of "sample_widgets\<lparr>nutrition_query := lit ''   ''\<rparr>"
          "lit ''hf_token''" id "str_as []" "always_responds generated_x"]
  by (simp add: sample_widgets_def lit_def py_isspace_def)

text \<open>
  C8. In a run whose first exchange returns and whose clarification is not blank, exactly
  two requests are sent, and the second carries \<open>refine_prompt\<close> of the clarification and the
  same weight, height, activity level, restriction and goal, cut with the limit 256; that
  prompt is the one displayed. It does not depend on the first exchange: with any other
  first query, service and \<open>str\<close>, a run that sends a second request sends the same one.
\<close>

theorem main_followup_prompt:
  assumes "submitted w" and "py_strip (nutrition_query w) \<noteq> []"
    and "py_strip (additional_info w) \<noteq> []"
    and "refine_prompt fmt (nutrition_query w) (weight w) (height w) (activity_level w)
           (food_restriction w) (goal w) = Inr p1"
    and "fst (call_deepseek_api k str_of service (enforce_free_tier_limit p1 256) []) = Inr answer"
  shows "(\<exists>p2. refine_prompt fmt (additional_info w) (weight w) (height w) (activity_level w)
                 (food_restriction w) (goal w) = Inr p2
            \<and> http_log (main k fmt str_of service w) =
                [deepseek_request k (enforce_free_tier_limit p1 256),
                 deepseek_request k (enforce_free_tier_limit p2 256)]
            \<and> StCode (enforce_free_tier_limit p2 256) \<in> set (ui_log (main k fmt str_of service w)))
       \<and> (\<forall>q' str_of' service'.
             py_strip q' \<noteq> [] \<and>
             length (http_log (main k fmt str_of' service' (w\<lparr>nutrition_query := q'\<rparr>))) = 2 \<longrightarrow>
             http_log (main k fmt str_of' service' (w\<lparr>nutrition_query := q'\<rparr>)) ! 1 =
               http_log (main k fmt str_of service w) ! 1)"
proof -
  let ?t = "\<lambda>text. enforce_free_tier_limit
        (substituted_template (fmt (weight w)) (fmt (height w)) (activity_level w)
           (food_restriction w) (goal w) (py_strip text)) 256"
  have p1: "p1 = substituted_template (fmt (weight w)) (fmt (height w)) (activity_level w)
           (food_restriction w) (goal w) (py_strip (nutrition_query w))"
    using assms(4) by (simp add: refine_prompt_eq)
  have first: "fst (call_deepseek_api k str_of service (?t (nutrition_query w)) []) = Inr answer"
    using assms(5) by (simp add: p1)
  have log: "http_log (main k fmt str_of service w) =
      [deepseek_request k (?t (nutrition_query w)), deepseek_request k (?t (additional_info w))]"
    using main_http_log [OF assms(1,2), of k fmt str_of service] assms(3) first by simp
  have shown: "StCode (?t (additional_info w)) \<in> set (ui_log (main k fmt str_of service w))"
    using main_ui_log_followup [OF assms(1,2,3) first] .
  have a: "\<exists>p2. refine_prompt fmt (additional_info w) (weight w) (height w) (activity_level w)
                 (food_restriction w) (goal w) = Inr p2
            \<and> http_log (main k fmt str_of service w) =
                [deepseek_request k (enforce_free_tier_limit p1 256),
                 deepseek_request k (enforce_free_tier_limit p2 256)]
            \<and> StCode (enforce_free_tier_limit p2 256) \<in> set (ui_log (main k fmt str_of service w))"
    using log shown by (simp add: refine_prompt_eq p1)
  have b: "http_log (main k fmt str_of' service' (w\<lparr>nutrition_query := q'\<rparr>)) ! 1 =
               http_log (main k fmt str_of service w) ! 1"
    if h: "py_strip q' \<noteq> [] \<and>
       length (http_log (main k fmt str_of' service' (w\<lparr>nutrition_query := q'\<rparr>))) = 2"
    for q' str_of' service'
  proof -
    have s: "submitted (w\<lparr>nutrition_query := q'\<rparr>)"
      and n: "py_strip (nutrition_query (w\<lparr>nutrition_query := q'\<rparr>)) \<noteq> []"
      using assms(1) h by simp_all
    show ?thesis
      using main_http_log [OF s n, of k fmt str_of' service'] h
      by (simp add: log split: if_splits)
  qed
  from a b show ?thesis by blast
qed

theorem main_followup_prompt_witness:
  "submitted sample_widgets \<and> py_strip (nutrition_query sample_widgets) \<noteq> []
   \<and> py_strip (additional_info sample_widgets) \<noteq> []
   \<and> http_log (main (lit ''hf_token'') id (str_as []) (always_responds generated_x)
        sample_widgets) ! 1 =
       deepseek_request (lit ''hf_token'')
         (lit ''Details: W:70.0kg, H:170.0cm, Act:Sedentary; Restr:None; Goal:Maintenance.\<newline>'' @
          lit ''Query: more protein.\<newline>'' @
          lit ''Plan: Provide calorie intake, nutrient (g) breakdown, meal suggestions, and guidelines.'')"
proof -
  let ?p1 = "substituted_template (lit ''70.0'') (lit ''170.0'') (lit ''Sedentary'') (lit ''None'')
       (lit ''Maintenance'') (lit ''lose weight'')"
  have strip1: "py_strip (lit ''  lose weight  '') = lit ''lose weight''"
    and strip2: "py_strip (lit ''more protein'') = lit ''more protein''"
    by (simp_all add: py_strip_def lit_def py_isspace_def)
  have h1: "submitted sample_widgets"
    and h2: "py_strip (nutrition_query sample_widgets) \<noteq> []"
    and h3: "py_strip (additional_info sample_widgets) \<noteq> []"
    by (simp_all add: sample_widgets_def strip1 strip2) (simp_all add: lit_def)
  have h4: "refine_prompt id (nutrition_query sample_widgets) (weight sample_widgets)
      (height sample_widgets) (activity_level sample_widgets) (food_restriction sample_widgets)
      (goal sample_widgets) = Inr ?p1"
    by (simp add: refine_prompt_eq sample_widgets_def strip1)
  have h5: "fst (call_deepseek_api (lit ''hf_token'') (str_as []) (always_responds generated_x)
      (enforce_free_tier_limit ?p1 256) []) = Inr (PyStr (lit ''X''))"
    by (simp add: call_deepseek_api_def requests_post_def always_responds_def Let_def
          generated_x_def py_in_def py_getitem_def)
  have e: "enforce_free_tier_limit
       (substituted_template (lit ''70.0'') (lit ''170.0'') (lit ''Sedentary'') (lit ''None'')
          (lit ''Maintenance'') (lit ''more protein'')) 256 =
     lit ''Details: W:70.0kg, H:170.0cm, Act:Sedentary; Restr:None; Goal:Maintenance.\<newline>'' @
          lit ''Query: more protein.\<newline>'' @
          lit ''Plan: Provide calorie intake, nutrient (g) breakdown, meal suggestions, and guidelines.''"
    by (simp add: enforce_free_tier_limit_def substituted_template_def lit_def)
  show ?thesis
    using main_followup_prompt [OF h1 h2 h3 h4 h5] h1 h2 h3
    by (auto simp add: refine_prompt_eq sample_widgets_def strip2 e)
qed

section \<open>Properties of the start of the script\<close>

text \<open>
  C10. When the variable \<open>HUGGINGFACE_API_KEY\<close> is unset or set to the empty string, the
  script displays the error, stops, and neither renders the form nor sends a request; with
  a non-empty key it runs \<open>main\<close> with that key.
\<close>

theorem script_stops_without_api_key:
  "(environ (lit ''HUGGINGFACE_API_KEY'') = None \<or> environ (lit ''HUGGINGFACE_API_KEY'') = Some []
      \<longrightarrow> script environ fmt str_of service w =
            \<lparr>ui_log = [StError (lit ''Hugging Face API key not found. Please set it in your Space secrets as HUGGINGFACE_API_KEY.'')],
             http_log = [], outcome = Stopped\<rparr>)
   \<and> (\<forall>key. environ (lit ''HUGGINGFACE_API_KEY'') = Some key \<and> key \<noteq> [] \<longrightarrow>
         script environ fmt str_of service w = main key fmt str_of service w)"
  by (auto simp add: script_def HUGGINGFACE_API_KEY_def key_not_found_def)

theorem script_stops_without_api_key_witness:
  "script Map.empty id (str_as []) (always_responds generated_x) sample_widgets =
     \<lparr>ui_log = [StError (lit ''Hugging Face API key not found. Please set it in your Space secrets as HUGGINGFACE_API_KEY.'')],
      http_log = [], outcome = Stopped\<rparr>
   \<and> script [lit ''HUGGINGFACE_API_KEY'' \<mapsto> []] id (str_as []) (always_responds generated_x)
       sample_widgets =
     \<lparr>ui_log = [StError (lit ''Hugging Face API key not found. Please set it in your Space secrets as HUGGINGFACE_API_KEY.'')],
      http_log = [], outcome = Stopped\<rparr>
   \<and> script [lit ''HUGGINGFACE_API_KEY'' \<mapsto> lit ''hf_token''] id (str_as [])
       (always_responds generated_x) sample_widgets =
     main (lit ''hf_token'') id (str_as []) (always_responds generated_x) sample_widgets"
  using script_stops_without_api_key [of Map.empty id "str_as []" "always_responds generated_x"
          sample_widgets]
        script_stops_without_api_key [of "[lit ''HUGGINGFACE_API_KEY'' \<mapsto> []]" id "str_as []"
          "always_responds generated_x" sample_widgets]
        script_stops_without_api_key [of "[lit ''HUGGINGFACE_API_KEY'' \<mapsto> lit ''hf_token'']" id
          "str_as []" "always_responds generated_x" sample_widgets]
  by (simp add: lit_def)

end
